theory Spec2Isabelle
  imports
    Complex_Main
    "HOL-Library.FSet"
    "HOL-Library.Char_ord"
    "HOL-Library.List_Lexorder"
begin

section \<open>Field-mapping consistency check (verify\_field\_mapping.py)\<close>

text \<open>
  The script holds two literal tables, \<open>DB_FIELDS\<close> and \<open>FRONTEND_FIELDS\<close>, each a
  dict from a filing type to a set of field names, and runs one loop over the literal
  list of filing types. For every filing type the loop body looks both sets up,
  computes three sets with Python's set operators and prints them, the last line as
  the two counts \<open>len(matched)\<close> and \<open>len(db_fields)\<close> separated by a slash.

  A Python set is finite, so it is a \<open>'a fset\<close>; the set operators do not look at the
  elements, so the body is polymorphic in them, and the tables use \<open>string\<close>. A dict is
  a map, and a missing key is the error value \<open>KeyError\<close>. The wording of the printed
  lines is left out; what is kept of them is their content.
\<close>

subsection \<open>Errors and run-time values\<close>

text \<open>
  The script has no \<open>raise\<close> statement and defines no exception class. The errors of
  the interpreter that the statements of the loop can raise are \<open>KeyError\<close> from a
  subscript (lines 58 and 59) and \<open>TypeError\<close> from an operator or a built-in applied
  to a value that does not support it.
\<close>

datatype py_error = KeyError string | TypeError

subsection \<open>The loop body (lines 58 to 77)\<close>

text \<open>
  What one pass of the loop computes from \<open>db_fields\<close> and \<open>fe_fields\<close>: the three sets
  of lines 62, 69 and 76, and the two numbers printed on line 77.
\<close>

record 'a reconciliation =
  missing_in_frontend :: "'a fset"
  extra_in_frontend :: "'a fset"
  matched :: "'a fset"
  len_matched :: nat
  len_db_fields :: nat

definition reconcile :: "'a fset \<Rightarrow> 'a fset \<Rightarrow> 'a reconciliation" where
  "reconcile db_fields fe_fields =
     \<lparr> missing_in_frontend = db_fields |-| fe_fields,
       extra_in_frontend = fe_fields |-| db_fields,
       matched = db_fields |\<inter>| fe_fields,
       len_matched = fcard (db_fields |\<inter>| fe_fields),
       len_db_fields = fcard db_fields \<rparr>"

text \<open>
  The value of a printed fraction \<open>n/m\<close>. The script prints the two counts and never
  divides them; read as a number, the fraction is the quotient when \<open>m\<close> is not zero
  and is no number otherwise.
\<close>

definition fraction_value :: "nat \<Rightarrow> nat \<Rightarrow> rat option" where
  "fraction_value n m = (if m = 0 then None else Some (of_nat n / of_nat m))"

definition coverage :: "'a reconciliation \<Rightarrow> rat option" where
  "coverage r = fraction_value (len_matched r) (len_db_fields r)"

subsection \<open>The loop (lines 54 to 77)\<close>

text \<open>
  The loop over a list of filing types with the two tables: each pass subscripts both
  tables (a missing key ends the run with \<open>KeyError\<close>) and runs the body. The result
  lists the filing types with what was computed for them, in the order they were
  processed.
\<close>

fun main_loop ::
  "string list \<Rightarrow> (string \<rightharpoonup> 'a fset) \<Rightarrow> (string \<rightharpoonup> 'a fset) \<Rightarrow>
     py_error + (string \<times> 'a reconciliation) list" where
  "main_loop [] db fe = Inr []"
| "main_loop (filing_type # rest) db fe =
     (case db filing_type of
        None \<Rightarrow> Inl (KeyError filing_type)
      | Some db_fields \<Rightarrow>
          (case fe filing_type of
             None \<Rightarrow> Inl (KeyError filing_type)
           | Some fe_fields \<Rightarrow>
               (case main_loop rest db fe of
                  Inl e \<Rightarrow> Inl e
                | Inr rs \<Rightarrow> Inr ((filing_type, reconcile db_fields fe_fields) # rs))))"

subsection \<open>The literal tables and the run\<close>

definition DB_FIELDS :: "string \<rightharpoonup> string fset" where
  "DB_FIELDS = map_of
     [(''10-K'',
       {|''auditor_opinion'', ''business_segments'', ''growth_drivers'',
         ''management_outlook'', ''market_impact_10k'', ''risk_summary'',
         ''strategic_adjustments'', ''three_year_financials''|}),
      (''10-Q'',
       {|''beat_miss_analysis'', ''cost_structure'', ''expectations_comparison'',
         ''growth_decline_analysis'', ''guidance_update'', ''management_tone_analysis'',
         ''market_impact_10q''|}),
      (''8-K'',
       {|''event_nature_analysis'', ''event_timeline'', ''item_type'',
         ''items'', ''key_considerations'', ''market_impact_analysis''|}),
      (''S-1'',
       {|''company_overview'', ''competitive_moat_analysis'', ''financial_summary'',
         ''growth_path_analysis'', ''ipo_details'', ''risk_categories''|})]"

definition FRONTEND_FIELDS :: "string \<rightharpoonup> string fset" where
  "FRONTEND_FIELDS = map_of
     [(''10-K'',
       {|''auditor_opinion'', ''business_segments'', ''growth_drivers'',
         ''management_outlook'', ''risk_summary'', ''strategic_adjustments'',
         ''three_year_financials''|}),
      (''10-Q'',
       {|''beat_miss_analysis'', ''cost_structure'', ''expectations_comparison'',
         ''growth_decline_analysis'', ''guidance_update'', ''management_tone_analysis''|}),
      (''8-K'',
       {|''event_nature_analysis'', ''event_timeline'', ''item_type'',
         ''items'', ''key_considerations'', ''market_impact_analysis'',
         ''event_summary'', ''event_type''|}),
      (''S-1'',
       {|''company_overview'', ''competitive_moat_analysis'', ''financial_summary'',
         ''growth_path_analysis'', ''ipo_details'', ''risk_categories'',
         ''business_description''|})]"

definition filing_types :: "string list" where
  "filing_types = [''10-K'', ''10-Q'', ''8-K'', ''S-1'']"

definition main :: "py_error + (string \<times> string reconciliation) list" where
  "main = main_loop filing_types DB_FIELDS FRONTEND_FIELDS"

subsection \<open>The loop body on values of other types (lines 62 to 77)\<close>









section \<open>Properties of the loop body\<close>

text \<open>
  C1. For every reference set \<open>R\<close> and observed set \<open>Ob\<close>, the body's \<open>missing\<close> is the set
  difference \<open>R - Ob\<close>, its \<open>extra\<close> is \<open>Ob - R\<close> and its \<open>matched\<close> is the intersection
  of \<open>R\<close> and \<open>Ob\<close>, stated on the underlying sets of elements.
\<close>

theorem reconcile_sets:
  "fset (missing_in_frontend (reconcile R Ob)) = fset R - fset Ob \<and>
   fset (extra_in_frontend (reconcile R Ob)) = fset Ob - fset R \<and>
   fset (matched (reconcile R Ob)) = fset R \<inter> fset Ob"
  by (simp add: reconcile_def)

text \<open>
  C2 as stated gives an empty reference set the coverage 1.0. The script has no such
  rule: line 77 prints the two counts, and for an empty reference set both are 0. The
  printed \<open>0/0\<close> is not the number 1.
\<close>

theorem coverage_empty_reference_counterexample:
  "len_matched (reconcile ({||} :: string fset) {|''d''|}) = 0 \<and>
   len_db_fields (reconcile ({||} :: string fset) {|''d''|}) = 0 \<and>
   coverage (reconcile ({||} :: string fset) {|''d''|}) \<noteq> Some 1"
  by (simp add: reconcile_def coverage_def fraction_value_def)

text \<open>
  C2, amended. The two printed counts are the size of the matched set and the size of
  the reference set. When the reference set is not empty their quotient is the
  coverage and lies between 0 and 1. When it is empty both counts are 0 and the
  fraction has no value; nothing is divided, so nothing is divided by zero. An empty
  reference set has no missing field, whatever was observed.
\<close>

theorem reconcile_coverage:
  "len_matched (reconcile R Ob) = fcard (matched (reconcile R Ob)) \<and>
   len_db_fields (reconcile R Ob) = fcard R \<and>
   (0 < fcard R \<longrightarrow>
      coverage (reconcile R Ob) =
        Some (of_nat (fcard (matched (reconcile R Ob))) / of_nat (fcard R)) \<and>
      (0 :: rat) \<le> of_nat (fcard (matched (reconcile R Ob))) / of_nat (fcard R) \<and>
      of_nat (fcard (matched (reconcile R Ob))) / of_nat (fcard R) \<le> (1 :: rat)) \<and>
   (fcard R = 0 \<longrightarrow>
      len_matched (reconcile R Ob) = 0 \<and> len_db_fields (reconcile R Ob) = 0 \<and>
      coverage (reconcile R Ob) = None) \<and>
   missing_in_frontend (reconcile {||} Ob) = {||}"
proof -
  have le: "fcard (R |\<inter>| Ob) \<le> fcard R"
    by (rule fcard_mono) simp
  have ratio: "0 < fcard R \<Longrightarrow>
      (of_nat (fcard (R |\<inter>| Ob)) :: rat) / of_nat (fcard R) \<le> 1"
    using le by (simp add: divide_le_eq_1)
  show ?thesis
    using ratio by (simp add: reconcile_def coverage_def fraction_value_def)
qed

theorem reconcile_coverage_witness:
  "0 < fcard {|''a'', ''b'', ''c''|} \<and>
   coverage (reconcile {|''a'', ''b'', ''c''|} {|''b'', ''c'', ''d''|}) = Some (2 / 3) \<and>
   fcard ({||} :: string fset) = 0 \<and>
   coverage (reconcile {||} {|''d''|}) = None"
proof -
  have pos: "0 < fcard {|''a'', ''b'', ''c''|}"
    by (simp add: fcard_finsert_if)
  have m: "fcard (matched (reconcile {|''a'', ''b'', ''c''|} {|''b'', ''c'', ''d''|})) = 2"
    by (simp add: reconcile_def fcard_finsert_if)
  have t: "fcard {|''a'', ''b'', ''c''|} = 3"
    by (simp add: fcard_finsert_if)
  have e: "fcard ({||} :: string fset) = 0"
    by simp
  from reconcile_coverage [of "{|''a'', ''b'', ''c''|}" "{|''b'', ''c'', ''d''|}"] pos
  have c1: "coverage (reconcile {|''a'', ''b'', ''c''|} {|''b'', ''c'', ''d''|}) =
      Some (of_nat (fcard (matched (reconcile {|''a'', ''b'', ''c''|} {|''b'', ''c'', ''d''|}))) /
            of_nat (fcard {|''a'', ''b'', ''c''|}))"
    by blast
  from reconcile_coverage [of "{||} :: string fset" "{|''d''|}"] e
  have c2: "coverage (reconcile ({||} :: string fset) {|''d''|}) = None"
    by blast
  show ?thesis
    using pos e c2 c1 unfolding m t by simp
qed

text \<open>
  C3. The matched set does not depend on the order of the two arguments.
\<close>

theorem reconcile_matched_symmetric:
  "matched (reconcile R Ob) = matched (reconcile Ob R)"
  by (simp add: reconcile_def inf_commute)

text \<open>
  C4 as stated holds for every set, the empty one included. Comparing the empty set
  with itself prints \<open>0/0\<close>, which is not the coverage 1.0.
\<close>

theorem reconcile_self_empty_counterexample:
  "len_matched (reconcile ({||} :: string fset) {||}) = 0 \<and>
   len_db_fields (reconcile ({||} :: string fset) {||}) = 0 \<and>
   coverage (reconcile ({||} :: string fset) {||}) \<noteq> Some 1"
  by (simp add: reconcile_def coverage_def fraction_value_def)

text \<open>
  C4, amended. Comparing a set with itself leaves nothing missing and nothing extra,
  and the two printed counts are equal. The coverage is 1 when the set is not empty;
  for the empty set the counts are \<open>0/0\<close> and the fraction has no value.
\<close>

theorem reconcile_self:
  "missing_in_frontend (reconcile R R) = {||} \<and>
   extra_in_frontend (reconcile R R) = {||} \<and>
   len_matched (reconcile R R) = len_db_fields (reconcile R R) \<and>
   (R \<noteq> {||} \<longrightarrow> coverage (reconcile R R) = Some 1) \<and>
   (R = {||} \<longrightarrow> coverage (reconcile R R) = None)"
  by (simp add: reconcile_def coverage_def fraction_value_def)

theorem reconcile_self_witness:
  "{|''a'', ''b''|} \<noteq> ({||} :: string fset) \<and>
   coverage (reconcile {|''a'', ''b''|} {|''a'', ''b''|}) = Some 1 \<and>
   coverage (reconcile ({||} :: string fset) {||}) = None"
proof -
  have ne: "{|''a'', ''b''|} \<noteq> ({||} :: string fset)"
    by simp
  from reconcile_self [of "{|''a'', ''b''|}"] ne
  have full: "coverage (reconcile {|''a'', ''b''|} {|''a'', ''b''|}) = Some 1"
    by blast
  from reconcile_self [of "{||} :: string fset"]
  have none: "coverage (reconcile ({||} :: string fset) {||}) = None"
    by blast
  show ?thesis
    using ne full none by blast
qed

text \<open>
  C5. For every pair of sets the missing set and the matched set have no element in
  common.
\<close>

theorem reconcile_missing_matched_disjoint:
  "missing_in_frontend (reconcile R Ob) |\<inter>| matched (reconcile R Ob) = {||}"
  by (auto simp: reconcile_def)

text \<open>
  C6. Against an empty observed set every reference field is missing and none is extra.
  The claim asks for a non-empty reference set; the equations hold for the empty one
  too, so the theorem carries no condition.
\<close>

theorem reconcile_empty_observed:
  "extra_in_frontend (reconcile R {||}) = {||} \<and>
   missing_in_frontend (reconcile R {||}) = R"
  by (simp add: reconcile_def)

text \<open>
  C9. The outputs split both inputs: missing and matched are disjoint and together
  make up the reference set, extra and matched are disjoint and together make up the
  observed set. Hence the sizes of matched and missing add up to the size of the
  reference set, and the first printed count never exceeds the second.
\<close>

theorem reconcile_partition:
  "missing_in_frontend (reconcile R Ob) |\<union>| matched (reconcile R Ob) = R \<and>
   missing_in_frontend (reconcile R Ob) |\<inter>| matched (reconcile R Ob) = {||} \<and>
   extra_in_frontend (reconcile R Ob) |\<union>| matched (reconcile R Ob) = Ob \<and>
   extra_in_frontend (reconcile R Ob) |\<inter>| matched (reconcile R Ob) = {||} \<and>
   fcard (matched (reconcile R Ob)) + fcard (missing_in_frontend (reconcile R Ob)) = fcard R \<and>
   len_matched (reconcile R Ob) \<le> len_db_fields (reconcile R Ob)"
proof -
  have un: "(R |-| Ob) |\<union>| (R |\<inter>| Ob) = R"
    by auto
  have disj: "(R |\<inter>| Ob) |\<inter>| (R |-| Ob) = {||}"
    by auto
  have "fcard ((R |\<inter>| Ob) |\<union>| (R |-| Ob)) = fcard (R |\<inter>| Ob) + fcard (R |-| Ob)"
    using disj by (rule fcard_funion_disjoint)
  then have sizes: "fcard (R |\<inter>| Ob) + fcard (R |-| Ob) = fcard R"
    using un by (simp add: sup_commute)
  have le: "fcard (R |\<inter>| Ob) \<le> fcard R"
    using sizes by linarith
  have obs: "(Ob |-| R) |\<union>| (R |\<inter>| Ob) = Ob" "(Ob |-| R) |\<inter>| (R |\<inter>| Ob) = {||}"
    by auto
  have ref: "(R |-| Ob) |\<inter>| (R |\<inter>| Ob) = {||}"
    by auto
  show ?thesis
    using un ref obs sizes le by (simp add: reconcile_def)
qed

section \<open>Errors of the loop body\<close>



section \<open>Properties of the loop and of the run\<close>

text \<open>
  C7 as stated has the categories processed in sorted order for every mapping. The
  loop does not sort: it takes the categories in the order of the list it iterates
  over. With the list \<open>Y, X\<close> the result keys iterate as \<open>Y, X\<close>, which is not sorted.
\<close>

theorem main_loop_unsorted_counterexample:
  "main_loop [''Y'', ''X'']
     (map_of [(''X'', {|''a'', ''b''|}), (''Y'', {|''c''|})])
     (map_of [(''X'', {|''b''|}), (''Y'', {|''c'', ''d''|})]) =
   Inr [(''Y'', reconcile {|''c''|} {|''c'', ''d''|}),
        (''X'', reconcile {|''a'', ''b''|} {|''b''|})] \<and>
   \<not> sorted [''Y'', ''X'']"
  by (simp add: less_eq_char_def)

text \<open>
  C7, amended. The loop processes the categories in the order of its list: when every
  listed category is a key of both tables, the result pairs each category, in that
  order, with the body's result for that category's own two sets and nothing else.
  The script's own list of filing types is in strictly ascending order.
\<close>

theorem main_loop_list_order:
  "sorted_wrt (<) filing_types \<and>
   (set fts \<subseteq> dom db \<inter> dom fe \<longrightarrow>
      main_loop fts db fe =
        Inr (map (\<lambda>ft. (ft, reconcile (the (db ft)) (the (fe ft)))) fts))"
proof -
  have "sorted_wrt (<) filing_types"
    by (simp add: filing_types_def less_char_def)
  moreover have "set fts \<subseteq> dom db \<inter> dom fe \<longrightarrow>
      main_loop fts db fe =
        Inr (map (\<lambda>ft. (ft, reconcile (the (db ft)) (the (fe ft)))) fts)"
    by (induction fts) auto
  ultimately show ?thesis
    by simp
qed

theorem main_loop_list_order_witness:
  "set [''X'', ''Y''] \<subseteq>
     dom (map_of [(''X'', {|''a'', ''b''|}), (''Y'', {|''c''|})]) \<inter>
     dom (map_of [(''X'', {|''b''|}), (''Y'', {|''c'', ''d''|})]) \<and>
   main_loop [''X'', ''Y'']
     (map_of [(''X'', {|''a'', ''b''|}), (''Y'', {|''c''|})])
     (map_of [(''X'', {|''b''|}), (''Y'', {|''c'', ''d''|})]) =
   Inr [(''X'', reconcile {|''a'', ''b''|} {|''b''|}),
        (''Y'', reconcile {|''c''|} {|''c'', ''d''|})]"
proof -
  have keys: "set [''X'', ''Y''] \<subseteq>
     dom (map_of [(''X'', {|''a'', ''b''|}), (''Y'', {|''c''|})]) \<inter>
     dom (map_of [(''X'', {|''b''|}), (''Y'', {|''c'', ''d''|})])"
    by simp
  from main_loop_list_order [of "[''X'', ''Y'']"
      "map_of [(''X'', {|''a'', ''b''|}), (''Y'', {|''c''|})]"
      "map_of [(''X'', {|''b''|}), (''Y'', {|''c'', ''d''|})]"] keys
  have "main_loop [''X'', ''Y'']
     (map_of [(''X'', {|''a'', ''b''|}), (''Y'', {|''c''|})])
     (map_of [(''X'', {|''b''|}), (''Y'', {|''c'', ''d''|})]) =
     Inr (map (\<lambda>ft. (ft, reconcile
        (the (map_of [(''X'', {|''a'', ''b''|}), (''Y'', {|''c''|})] ft))
        (the (map_of [(''X'', {|''b''|}), (''Y'', {|''c'', ''d''|})] ft)))) [''X'', ''Y''])"
    by blast
  then show ?thesis
    using keys by simp
qed

text \<open>
  C10. Both tables have the four filing types as their keys, the list the loop
  iterates over holds the same four, so every subscript of the run finds its key and
  the run ends without \<open>KeyError\<close>, with one result per filing type.
\<close>

theorem tables_keys:
  "dom DB_FIELDS = {''10-K'', ''10-Q'', ''8-K'', ''S-1''} \<and>
   dom FRONTEND_FIELDS = {''10-K'', ''10-Q'', ''8-K'', ''S-1''} \<and>
   set filing_types = {''10-K'', ''10-Q'', ''8-K'', ''S-1''} \<and>
   list_all (\<lambda>ft. DB_FIELDS ft \<noteq> None \<and> FRONTEND_FIELDS ft \<noteq> None) filing_types \<and>
   (\<exists>rs. main = Inr rs \<and> map fst rs = filing_types)"
proof -
  have db: "dom DB_FIELDS = {''10-K'', ''10-Q'', ''8-K'', ''S-1''}"
    by (auto simp: DB_FIELDS_def split: if_splits)
  have fe: "dom FRONTEND_FIELDS = {''10-K'', ''10-Q'', ''8-K'', ''S-1''}"
    by (auto simp: FRONTEND_FIELDS_def split: if_splits)
  have fts: "set filing_types = {''10-K'', ''10-Q'', ''8-K'', ''S-1''}"
    by (simp add: filing_types_def)
  have look: "list_all (\<lambda>ft. DB_FIELDS ft \<noteq> None \<and> FRONTEND_FIELDS ft \<noteq> None) filing_types"
    by (simp add: filing_types_def DB_FIELDS_def FRONTEND_FIELDS_def)
  have run: "\<exists>rs. main = Inr rs \<and> map fst rs = filing_types"
    by (simp add: main_def filing_types_def DB_FIELDS_def FRONTEND_FIELDS_def)
  show ?thesis
    using db fe fts look run by blast
qed

end
